theory Spec2Isabelle
  imports Main "HOL-Library.Word" "HOL-Library.Sublist" "HOL-Library.Multiset"
begin

section \<open>File hosting service: a shallow embedding of \<open>app.py\<close>\<close>

text \<open>
  The service keeps uploaded configuration files under the folder \<open>uploads\<close> and their
  metadata in an SQLite database reached through one shared connection. The model below
  follows \<open>app.py\<close> function by function. What the code takes from its environment
  (the clock, the random token, werkzeug's \<open>secure_filename\<close>, the SHA-256 function of
  \<open>hashlib\<close>, and whether a database statement raises) is an explicit argument.

  Python strings are modelled as \<open>string\<close>; a \<open>char\<close> stands for a code point
  below 256. File contents are lists of bytes.
\<close>

type_synonym byte = "8 word"

subsection \<open>Configuration\<close>

definition UPLOAD_FOLDER :: string where
  "UPLOAD_FOLDER = ''uploads''"

definition ALLOWED_EXTENSIONS :: "string set" where
  "ALLOWED_EXTENSIONS =
     {''txt'', ''json'', ''conf'', ''config'', ''yaml'', ''yml'', ''xml'', ''ini'', ''cfg'',
      ''properties''}"

definition MAX_CONTENT_LENGTH :: nat where
  "MAX_CONTENT_LENGTH = 10 * 1024 * 1024"

text \<open>\<open>ADMIN_ID\<close> is read from the process environment; this is its default.\<close>

definition ADMIN_ID :: int where
  "ADMIN_ID = 6493515910"

subsection \<open>String operations of Python used by the code\<close>

text \<open>
  \<open>str.lower\<close> on one code point below 256: the ASCII capitals and the Latin-1 capitals
  (\<open>U+00C0\<close> to \<open>U+00DE\<close> without the multiplication sign \<open>U+00D7\<close>) move up by 32, every
  other code point stays.
\<close>

definition lower_char :: "char \<Rightarrow> char" where
  "lower_char c =
     (let n = (of_char c :: nat)
      in if (65 \<le> n \<and> n \<le> 90) \<or> (192 \<le> n \<and> n \<le> 222 \<and> n \<noteq> 215)
         then char_of (n + 32) else c)"

definition lower :: "string \<Rightarrow> string" where
  "lower s = map lower_char s"

text \<open>
  \<open>s.rsplit(sep, 1)\<close>: the one-element list \<open>[s]\<close> when \<open>sep\<close> does not occur, else the
  part before the last \<open>sep\<close> and the part after it.
\<close>

definition rsplit1 :: "char \<Rightarrow> string \<Rightarrow> string list" where
  "rsplit1 sep s =
     (if sep \<in> set s
      then [rev (tl (dropWhile (\<lambda>c. c \<noteq> sep) (rev s))),
            rev (takeWhile (\<lambda>c. c \<noteq> sep) (rev s))]
      else [s])"

text \<open>\<open>str(n)\<close> for a non-negative integer: its decimal digits.\<close>

definition digit_char :: "nat \<Rightarrow> char" where
  "digit_char d = ''0123456789'' ! d"

function str_nat :: "nat \<Rightarrow> string" where
  "str_nat n = (if n < 10 then [digit_char n] else str_nat (n div 10) @ [digit_char (n mod 10)])"
  by pat_completeness auto
termination
  by (relation "measure (\<lambda>n. n)") auto

declare str_nat.simps [simp del]

subsection \<open>Utility functions\<close>

text \<open>
  \<^verbatim>\<open>
  def allowed_file(filename):
      return '.' in filename and \
             filename.rsplit('.', 1)[1].lower() in ALLOWED_EXTENSIONS
  \<close>
  The index \<open>[1]\<close> is only evaluated when the name contains a dot, where \<open>rsplit1\<close> has
  two elements.
\<close>

definition allowed_file :: "string \<Rightarrow> bool" where
  "allowed_file filename \<longleftrightarrow>
     CHR ''.'' \<in> set filename \<and> lower (rsplit1 (CHR ''.'') filename ! 1) \<in> ALLOWED_EXTENSIONS"

text \<open>
  \<open>generate_unique_filename\<close>: the epoch second, an underscore, the eight-character random
  token, and the extension of the name it is given. The clock and the token are arguments.
\<close>

definition generate_unique_filename :: "nat \<Rightarrow> string \<Rightarrow> string \<Rightarrow> string" where
  "generate_unique_filename timestamp random_str original_filename =
     (let ext = (if CHR ''.'' \<in> set original_filename
                 then rsplit1 (CHR ''.'') original_filename ! 1 else [])
      in if ext \<noteq> [] then str_nat timestamp @ ''_'' @ random_str @ ''.'' @ ext
         else str_nat timestamp @ ''_'' @ random_str)"

text \<open>
  \<open>calculate_checksum\<close> reads the file in blocks of 4096 bytes until a read returns the
  empty block, and feeds each block to a \<open>hashlib.sha256()\<close> object. \<open>f.read(4096)\<close> returns
  the next at most 4096 bytes and advances the file position; the loop
  \<open>iter(lambda: f.read(4096), b"")\<close> is the recursion \<open>read_blocks\<close> on the unread rest.

  The hash object is modelled by hashlib's contract: its state is the message fed so far
  (\<open>update(a); update(b)\<close> is \<open>update(a + b)\<close>), and \<open>hexdigest()\<close> applies SHA-256 to it.
  SHA-256 itself is the argument \<open>sha256\<close>.
\<close>

function read_blocks :: "byte list \<Rightarrow> byte list list" where
  "read_blocks rest =
     (let byte_block = take 4096 rest
      in if byte_block = [] then [] else byte_block # read_blocks (drop 4096 rest))"
  by pat_completeness auto
termination
  by (relation "measure length") auto

declare read_blocks.simps [simp del]

type_synonym hash_object = "byte list"

definition hash_new :: hash_object where
  "hash_new = []"

definition hash_update :: "hash_object \<Rightarrow> byte list \<Rightarrow> hash_object" where
  "hash_update h byte_block = h @ byte_block"

definition hexdigest :: "(byte list \<Rightarrow> string) \<Rightarrow> hash_object \<Rightarrow> string" where
  "hexdigest sha256 h = sha256 h"

text \<open>The storage root: the regular files under it, by path.\<close>

type_synonym disk = "string \<rightharpoonup> byte list"

text \<open>\<open>open(file_path, "rb")\<close> raises when the file is missing: the result is \<open>None\<close>.\<close>

definition calculate_checksum :: "(byte list \<Rightarrow> string) \<Rightarrow> disk \<Rightarrow> string \<Rightarrow> string option" where
  "calculate_checksum sha256 d file_path =
     (case d file_path of
        None \<Rightarrow> None
      | Some content \<Rightarrow> Some (hexdigest sha256 (foldl hash_update hash_new (read_blocks content))))"

subsection \<open>The database\<close>

text \<open>
  The dictionary \<open>file_data\<close> that both upload handlers build and hand to \<open>add_file\<close>.
\<close>

record file_data =
  filename :: string
  original_filename :: string
  file_type :: string
  file_size :: nat
  version :: string
  storage_path :: string
  public_url :: string
  raw_url :: string
  download_url :: string
  release_notes :: string
  checksum :: string
  uploader_id :: int
  uploader_name :: string

text \<open>
  A row of table \<open>files\<close>: the thirteen inserted columns (\<open>columns\<close>) and the columns the
  database fills in. Timestamps are seconds; \<open>CURRENT_TIMESTAMP\<close> has a resolution of one
  second. \<open>INTEGER\<close> columns are unbounded here (SQLite's are 64-bit; no run of the service
  comes near that bound).
\<close>

record files_row =
  files_id :: nat
  columns :: file_data
  created_at :: nat
  expires_at :: nat
  is_active :: bool
  download_count :: nat
  last_download :: "nat option"

record version_row =
  version_id :: nat
  version_filename :: string
  version_label :: string
  version_storage_path :: string
  version_raw_url :: string
  version_created_at :: nat

record access_log_row =
  log_id :: nat
  log_file_id :: nat
  ip_address :: "string option"
  user_agent :: "string option"
  referrer :: "string option"
  action :: string
  accessed_at :: nat

text \<open>
  The tables in row order, with the \<open>AUTOINCREMENT\<close> counters SQLite keeps in
  \<open>sqlite_sequence\<close>.
\<close>

record tables =
  files :: "files_row list"
  file_versions :: "version_row list"
  access_logs :: "access_log_row list"
  files_seq :: nat
  file_versions_seq :: nat
  access_logs_seq :: nat

text \<open>
  \<open>FileHostingDB\<close> opens one connection in \<open>__init__\<close> and every method uses it. Python's
  \<open>sqlite3\<close> opens a transaction before the first \<open>INSERT\<close> or \<open>UPDATE\<close> and keeps it open
  until \<open>commit()\<close> or \<open>rollback()\<close>; \<open>app.py\<close> never calls \<open>rollback()\<close>. So the model has
  two copies of the tables: \<open>durable\<close>, what the database file holds, and \<open>session\<close>, what
  the connection sees, which includes the changes of the open transaction. Every query of
  the service reads \<open>session\<close>.
\<close>

record database =
  durable :: tables
  session :: tables

definition empty_tables :: tables where
  "empty_tables = \<lparr>files = [], file_versions = [], access_logs = [],
                    files_seq = 0, file_versions_seq = 0, access_logs_seq = 0\<rparr>"

definition empty_database :: database where
  "empty_database = \<lparr>durable = empty_tables, session = empty_tables\<rparr>"

text \<open>
  How a statement or a commit ends. \<open>Done\<close>: it ran. \<open>Failed\<close>: it raised, SQLite undid this
  statement only and the transaction stays open (SQLite's normal response to an error, for
  instance \<open>database is locked\<close> on commit). \<open>FailedRollback\<close>: it raised and SQLite rolled
  the whole transaction back (as it may on a full disk or an I/O error).
\<close>

datatype sql_outcome = Done | Failed | FailedRollback

text \<open>
  \<open>cursor.execute\<close> of a writing statement. The statement is a function on tables that
  returns \<open>None\<close> where a constraint rejects it (\<open>sqlite3.IntegrityError\<close>; the statement is
  undone, the transaction stays open). The boolean tells whether the call returned (\<open>True\<close>)
  or raised.
\<close>

definition execute :: "sql_outcome \<Rightarrow> (tables \<Rightarrow> tables option) \<Rightarrow> database \<Rightarrow> bool \<times> database" where
  "execute outcome statement db =
     (case outcome of
        Failed \<Rightarrow> (False, db)
      | FailedRollback \<Rightarrow> (False, db\<lparr>session := durable db\<rparr>)
      | Done \<Rightarrow> (case statement (session db) of
                  None \<Rightarrow> (False, db)
                | Some t \<Rightarrow> (True, db\<lparr>session := t\<rparr>)))"

definition commit :: "sql_outcome \<Rightarrow> database \<Rightarrow> bool \<times> database" where
  "commit outcome db =
     (case outcome of
        Failed \<Rightarrow> (False, db)
      | FailedRollback \<Rightarrow> (False, db\<lparr>session := durable db\<rparr>)
      | Done \<Rightarrow> (True, db\<lparr>durable := session db\<rparr>))"

text \<open>
  The row id of an \<open>INTEGER PRIMARY KEY AUTOINCREMENT\<close> column: one more than the largest
  id the table has ever held.
\<close>

definition next_rowid :: "nat \<Rightarrow> nat list \<Rightarrow> nat" where
  "next_rowid seq ids = Suc (fold max ids seq)"

text \<open>
  \<open>INSERT INTO files (...)\<close>. The columns \<open>storage_path\<close>, \<open>public_url\<close> and \<open>raw_url\<close> are
  \<open>UNIQUE\<close>. The defaults: \<open>created_at\<close> is now, \<open>expires_at\<close> is 365 days later, \<open>is_active\<close>
  is 1, \<open>download_count\<close> is 0, \<open>last_download\<close> is \<open>NULL\<close>.
\<close>

definition insert_files :: "nat \<Rightarrow> file_data \<Rightarrow> tables \<Rightarrow> tables option" where
  "insert_files now fd t =
     (if \<exists>r \<in> set (files t).
           storage_path (columns r) = storage_path fd \<or>
           public_url (columns r) = public_url fd \<or>
           raw_url (columns r) = raw_url fd
      then None
      else let i = next_rowid (files_seq t) (map files_id (files t))
           in Some (t\<lparr>files := files t @
                        [\<lparr>files_id = i, columns = fd, created_at = now,
                          expires_at = now + 365 * 86400, is_active = True,
                          download_count = 0, last_download = None\<rparr>],
                      files_seq := i\<rparr>))"

text \<open>\<open>INSERT INTO file_versions (filename, version, storage_path, raw_url)\<close>.\<close>

definition insert_file_versions ::
  "nat \<Rightarrow> string \<Rightarrow> string \<Rightarrow> string \<Rightarrow> string \<Rightarrow> tables \<Rightarrow> tables option" where
  "insert_file_versions now name label path url t =
     (let i = next_rowid (file_versions_seq t) (map version_id (file_versions t))
      in Some (t\<lparr>file_versions := file_versions t @
                   [\<lparr>version_id = i, version_filename = name, version_label = label,
                     version_storage_path = path, version_raw_url = url,
                     version_created_at = now\<rparr>],
                 file_versions_seq := i\<rparr>))"

text \<open>
  \<open>INSERT INTO access_logs (file_id, ip_address, user_agent, action)\<close>. SQLite does not
  enforce the foreign key on \<open>file_id\<close> unless \<open>PRAGMA foreign_keys\<close> is set, which the code
  never does, so any \<open>file_id\<close> is accepted. \<open>referrer\<close> is never given: \<open>NULL\<close>.
\<close>

definition insert_access_logs ::
  "nat \<Rightarrow> nat \<Rightarrow> string option \<Rightarrow> string option \<Rightarrow> string \<Rightarrow> tables \<Rightarrow> tables option" where
  "insert_access_logs now file_id ip ua act t =
     (let i = next_rowid (access_logs_seq t) (map log_id (access_logs t))
      in Some (t\<lparr>access_logs := access_logs t @
                   [\<lparr>log_id = i, log_file_id = file_id, ip_address = ip, user_agent = ua,
                     referrer = None, action = act, accessed_at = now\<rparr>],
                 access_logs_seq := i\<rparr>))"

text \<open>
  \<open>UPDATE files SET download_count = download_count + 1, last_download = CURRENT_TIMESTAMP
  WHERE id = ?\<close>.
\<close>

definition update_download :: "nat \<Rightarrow> nat \<Rightarrow> tables \<Rightarrow> tables option" where
  "update_download now file_id t =
     Some (t\<lparr>files := map (\<lambda>r. if files_id r = file_id
                                  then r\<lparr>download_count := download_count r + 1,
                                         last_download := Some now\<rparr>
                                  else r) (files t)\<rparr>)"

text \<open>
  \<open>add_file\<close>: two inserts and one commit inside \<open>try\<close>; the \<open>except\<close> branch logs and returns
  \<open>False\<close>. The three outcomes are those of the two \<open>execute\<close> calls and of \<open>commit\<close>.
\<close>

definition add_file ::
  "sql_outcome \<times> sql_outcome \<times> sql_outcome \<Rightarrow> nat \<Rightarrow> file_data \<Rightarrow> database \<Rightarrow> bool \<times> database" where
  "add_file outcomes now fd db =
     (case outcomes of (o1, o2, o3) \<Rightarrow>
        (case execute o1 (insert_files now fd) db of
           (False, db1) \<Rightarrow> (False, db1)
         | (True, db1) \<Rightarrow>
            (case execute o2 (insert_file_versions now (original_filename fd) (version fd)
                                (storage_path fd) (raw_url fd)) db1 of
               (False, db2) \<Rightarrow> (False, db2)
             | (True, db2) \<Rightarrow>
                (case commit o3 db2 of
                   (False, db3) \<Rightarrow> (False, db3)
                 | (True, db3) \<Rightarrow> (True, db3)))))"


definition get_file_by_filename :: "bool \<Rightarrow> string \<Rightarrow> database \<Rightarrow> files_row option" where
  "get_file_by_filename ok name db =
     (if ok then find (\<lambda>r. filename (columns r) = name) (files (session db)) else None)"

text \<open>
  \<open>record_download\<close>: the update, the log insert and the commit inside \<open>try\<close>; the \<open>except\<close>
  branch only logs.
\<close>

definition record_download ::
  "sql_outcome \<times> sql_outcome \<times> sql_outcome \<Rightarrow> nat \<Rightarrow> nat \<Rightarrow> string option \<Rightarrow> string option
     \<Rightarrow> database \<Rightarrow> database" where
  "record_download outcomes now file_id ip ua db =
     (case outcomes of (o1, o2, o3) \<Rightarrow>
        (case execute o1 (update_download now file_id) db of
           (False, db1) \<Rightarrow> db1
         | (True, db1) \<Rightarrow>
            (case execute o2 (insert_access_logs now file_id ip ua ''download'') db1 of
               (False, db2) \<Rightarrow> db2
             | (True, db2) \<Rightarrow> snd (commit o3 db2))))"

definition record_view ::
  "sql_outcome \<times> sql_outcome \<Rightarrow> nat \<Rightarrow> nat \<Rightarrow> string option \<Rightarrow> string option
     \<Rightarrow> database \<Rightarrow> database" where
  "record_view outcomes now file_id ip ua db =
     (case outcomes of (o1, o2) \<Rightarrow>
        (case execute o1 (insert_access_logs now file_id ip ua ''view'') db of
           (False, db1) \<Rightarrow> db1
         | (True, db1) \<Rightarrow> snd (commit o2 db1)))"

text \<open>
  \<open>ORDER BY created_at DESC\<close>, the only ordering the queries ask for. SQLite scans the table
  in row order and sorts with a stable sorter, so rows with the same \<open>created_at\<close> stay in
  row order; SQL itself promises no order among them.
\<close>

definition order_by_created_at_desc :: "('a \<Rightarrow> nat) \<Rightarrow> 'a list \<Rightarrow> 'a list" where
  "order_by_created_at_desc created rows = sort_key (\<lambda>r. - int (created r)) rows"

text \<open>The dictionary \<open>get_all_files\<close> builds from each row.\<close>

record file_summary =
  summary_id :: nat
  summary_original_filename :: string
  summary_file_type :: string
  summary_file_size :: nat
  summary_version :: string
  summary_raw_url :: string
  summary_download_url :: string
  summary_release_notes :: string
  summary_uploader_name :: string
  summary_created_at :: nat
  summary_download_count :: nat
  summary_is_active :: bool

definition file_summary_of :: "files_row \<Rightarrow> file_summary" where
  "file_summary_of r =
     \<lparr>summary_id = files_id r,
      summary_original_filename = original_filename (columns r),
      summary_file_type = file_type (columns r),
      summary_file_size = file_size (columns r),
      summary_version = version (columns r),
      summary_raw_url = raw_url (columns r),
      summary_download_url = download_url (columns r),
      summary_release_notes = release_notes (columns r),
      summary_uploader_name = uploader_name (columns r),
      summary_created_at = created_at r,
      summary_download_count = download_count r,
      summary_is_active = is_active r\<rparr>"

definition get_all_files :: "bool \<Rightarrow> database \<Rightarrow> file_summary list" where
  "get_all_files ok db =
     (if ok then map file_summary_of (order_by_created_at_desc created_at (files (session db)))
      else [])"






subsection \<open>Requests, responses and the state of the service\<close>

datatype http_method = GET | POST

text \<open>
  What the handlers read from a request. \<open>file_part\<close> is \<open>request.files['file']\<close>, the name
  the client sent and the bytes, or \<open>None\<close> when the form has no such part. \<open>other_bytes\<close>
  counts the rest of the request body (the other form fields and the multipart framing).
\<close>

record request =
  http_method :: http_method
  file_part :: "(string \<times> byte list) option"
  other_bytes :: nat
  form_version :: "string option"
  form_release_notes :: "string option"
  host_url :: string
  remote_addr :: "string option"
  header_user_agent :: "string option"

definition content_length :: "request \<Rightarrow> nat" where
  "content_length req =
     other_bytes req + (case file_part req of None \<Rightarrow> 0 | Some (name, content) \<Rightarrow> length content)"

datatype exn = RequestEntityTooLarge | OSError

text \<open>
  The responses the handlers return, with the HTTP status. The pages of \<open>upload_file\<close> are
  named by their heading; they all go out with status 200. \<open>Http_exception\<close> is the
  response Flask makes of an exception that leaves the view function.
\<close>

datatype body =
    Html_upload_form
  | Html_error string
  | Html_success file_data
  | Json_error string
  | Json_exception exn
  | Json_success file_data
  | Text string
  | File_sent bool string "byte list"
  | Http_exception exn

type_synonym response = "nat \<times> body"

record service =
  db :: database
  storage :: disk

datatype save_outcome = Saved | OpenFailed | WriteFailed nat

text \<open>
  What one request takes from outside the code: werkzeug's \<open>secure_filename\<close>, SHA-256,
  \<open>time.time()\<close>, the database clock, the token from \<open>secrets.choice\<close>, and how the file
  write and each database call end.
\<close>

record environment =
  secure_filename :: "string \<Rightarrow> string"
  sha256 :: "byte list \<Rightarrow> string"
  time_time :: nat
  current_timestamp :: nat
  random_str :: string
  save :: save_outcome
  add_file_sql :: "sql_outcome \<times> sql_outcome \<times> sql_outcome"
  select_ok :: bool
  record_download_sql :: "sql_outcome \<times> sql_outcome \<times> sql_outcome"

text \<open>
  \<open>file.save(storage_path)\<close> opens the path for writing, which truncates a file that is
  already there, and copies the upload into it. It either completes, or raises before the
  file is opened, or raises after some bytes were written.
\<close>

definition file_save :: "save_outcome \<Rightarrow> string \<Rightarrow> byte list \<Rightarrow> disk \<Rightarrow> bool \<times> disk" where
  "file_save outcome path content d =
     (case outcome of
        Saved \<Rightarrow> (True, d(path \<mapsto> content))
      | OpenFailed \<Rightarrow> (False, d)
      | WriteFailed k \<Rightarrow> (False, d(path \<mapsto> take k content)))"

text \<open>\<open>s.rstrip('/')\<close>.\<close>

definition rstrip :: "char \<Rightarrow> string \<Rightarrow> string" where
  "rstrip ch s = rev (dropWhile (\<lambda>c. c = ch) (rev s))"

text \<open>
  \<open>str(UPLOAD_FOLDER / unique_filename)\<close>. The generated name holds no \<open>/\<close> (werkzeug's
  \<open>secure_filename\<close> leaves none), so the path is the folder, a slash and the name.
\<close>

definition upload_path :: "string \<Rightarrow> string" where
  "upload_path unique_filename = UPLOAD_FOLDER @ ''/'' @ unique_filename"

subsection \<open>The upload handlers\<close>

text \<open>
  \<open>upload_file\<close> and \<open>api_upload\<close> contain the same block, from \<open># Get form data\<close> to the
  \<open>else\<close> branch that deletes the file when \<open>add_file\<close> returned \<open>False\<close>; only the
  \<open>uploader_name\<close> differs. The block is modelled in two parts.

  \<open>prepare_file_data\<close> is the dictionary the block builds: the form fields with their
  defaults, the secured name, the generated name, the file type, the storage path, the
  three URLs (the code strips the slash from \<open>host_url\<close> and adds none back), and the
  size and checksum measured after the file was saved.
\<close>

definition prepare_file_data ::
  "environment \<Rightarrow> string \<Rightarrow> request \<Rightarrow> string \<Rightarrow> nat \<Rightarrow> string \<Rightarrow> file_data" where
  "prepare_file_data env uploader req name nbytes digest =
     (let version = (case form_version req of None \<Rightarrow> ''1.0.0'' | Some v \<Rightarrow> v);
          release_notes = (case form_release_notes req of None \<Rightarrow> [] | Some n \<Rightarrow> n);
          original_filename = secure_filename env name;
          unique_filename =
            generate_unique_filename (time_time env) (random_str env) original_filename;
          file_type = (if CHR ''.'' \<in> set original_filename
                       then lower (rsplit1 (CHR ''.'') original_filename ! 1) else ''txt'');
          storage_path = upload_path unique_filename;
          base_url = rstrip (CHR ''/'') (host_url req);
          public_url = base_url @ ''file/'' @ unique_filename;
          raw_url = base_url @ ''raw/'' @ unique_filename;
          download_url = base_url @ ''download/'' @ unique_filename
      in \<lparr>filename = unique_filename,
          original_filename = original_filename,
          file_type = file_type,
          file_size = nbytes,
          version = version,
          storage_path = storage_path,
          public_url = public_url,
          raw_url = raw_url,
          download_url = download_url,
          release_notes = release_notes,
          checksum = digest,
          uploader_id = ADMIN_ID,
          uploader_name = uploader\<rparr>)"

text \<open>
  \<open>save_and_register\<close> is the block's control flow: save the upload under the generated
  name, take the size (\<open>stat().st_size\<close>) and the checksum of the saved file, call
  \<open>add_file\<close>, and when it returned \<open>False\<close> delete the file if it exists. The result says
  how the block ended: \<open>add_file\<close> returned \<open>True\<close>, it returned \<open>False\<close>, or an exception
  left the block.
\<close>

datatype upload_result = Registered file_data | Register_failed | Raised exn

definition save_and_register ::
  "environment \<Rightarrow> string \<Rightarrow> request \<Rightarrow> string \<Rightarrow> byte list \<Rightarrow> service \<Rightarrow> upload_result \<times> service" where
  "save_and_register env uploader req name content s =
     (let unique_filename =
            generate_unique_filename (time_time env) (random_str env) (secure_filename env name);
          storage_path = upload_path unique_filename
      in case file_save (save env) storage_path content (storage s) of
           (False, d) \<Rightarrow> (Raised OSError, s\<lparr>storage := d\<rparr>)
         | (True, d) \<Rightarrow>
            (case d storage_path of
               None \<Rightarrow> (Raised OSError, s\<lparr>storage := d\<rparr>)
             | Some stored \<Rightarrow>
                (case calculate_checksum (sha256 env) d storage_path of
                   None \<Rightarrow> (Raised OSError, s\<lparr>storage := d\<rparr>)
                 | Some digest \<Rightarrow>
                    (let fd = prepare_file_data env uploader req name (length stored) digest
                     in case add_file (add_file_sql env) (current_timestamp env) fd (db s) of
                          (True, db') \<Rightarrow> (Registered fd, \<lparr>db = db', storage = d\<rparr>)
                        | (False, db') \<Rightarrow>
                            (Register_failed,
                             \<lparr>db = db',
                              storage = (if storage_path \<in> dom d
                                         then d(storage_path := None) else d)\<rparr>)))))"

text \<open>
  Flask checks \<open>MAX_CONTENT_LENGTH\<close> when the view first touches \<open>request.files\<close>: a request
  body longer than the limit raises \<open>RequestEntityTooLarge\<close> there. \<open>upload_file\<close> has no
  \<open>try\<close>, so Flask answers 413 (and 500 for any other exception); \<open>api_upload\<close> catches
  every exception and answers 500 with the exception's text. The route of \<open>api_upload\<close>
  accepts \<open>POST\<close> only, so its view never sees another method.
\<close>

definition upload_file :: "environment \<Rightarrow> request \<Rightarrow> service \<Rightarrow> response \<times> service" where
  "upload_file env req s =
     (if http_method req = POST
      then if MAX_CONTENT_LENGTH < content_length req
           then ((413, Http_exception RequestEntityTooLarge), s)
           else (case file_part req of
                   None \<Rightarrow> ((200, Html_error ''No File Selected''), s)
                 | Some (name, content) \<Rightarrow>
                     if name = [] then ((200, Html_error ''No File Selected''), s)
                     else if \<not> allowed_file name then ((200, Html_error ''Invalid File Type''), s)
                     else (case save_and_register env ''Admin'' req name content s of
                             (Registered fd, s') \<Rightarrow> ((200, Html_success fd), s')
                           | (Register_failed, s') \<Rightarrow> ((200, Html_error ''Upload Failed''), s')
                           | (Raised e, s') \<Rightarrow> ((500, Http_exception e), s')))
      else ((200, Html_upload_form), s))"

definition api_upload :: "environment \<Rightarrow> request \<Rightarrow> service \<Rightarrow> response \<times> service" where
  "api_upload env req s =
     (if MAX_CONTENT_LENGTH < content_length req
      then ((500, Json_exception RequestEntityTooLarge), s)
      else (case file_part req of
              None \<Rightarrow> ((400, Json_error ''No file provided''), s)
            | Some (name, content) \<Rightarrow>
                if name = [] then ((400, Json_error ''No file selected''), s)
                else if \<not> allowed_file name then ((400, Json_error ''File type not allowed''), s)
                else (case save_and_register env ''API User'' req name content s of
                        (Registered fd, s') \<Rightarrow> ((200, Json_success fd), s')
                      | (Register_failed, s') \<Rightarrow> ((500, Json_error ''Database error''), s')
                      | (Raised e, s') \<Rightarrow> ((500, Json_exception e), s'))))"

subsection \<open>The raw and download routes\<close>

text \<open>
  \<open>raw_file\<close> and \<open>download_file\<close> differ in \<open>as_attachment\<close> only. \<open>send_file\<close> answers with
  the bytes of the file at \<open>storage_path\<close>.
\<close>

definition serve_file :: "bool \<Rightarrow> environment \<Rightarrow> request \<Rightarrow> string \<Rightarrow> service \<Rightarrow> response \<times> service" where
  "serve_file as_attachment env req name s =
     (case get_file_by_filename (select_ok env) name (db s) of
        None \<Rightarrow> ((404, Text ''File not found''), s)
      | Some file_data \<Rightarrow>
          (case storage s (storage_path (columns file_data)) of
             None \<Rightarrow> ((404, Text ''File not found on server''), s)
           | Some content \<Rightarrow>
               ((200, File_sent as_attachment (original_filename (columns file_data)) content),
                s\<lparr>db := record_download (record_download_sql env) (current_timestamp env)
                            (files_id file_data) (remote_addr req) (header_user_agent req)
                            (db s)\<rparr>)))"

definition raw_file :: "environment \<Rightarrow> request \<Rightarrow> string \<Rightarrow> service \<Rightarrow> response \<times> service" where
  "raw_file env req name s = serve_file False env req name s"

definition download_file :: "environment \<Rightarrow> request \<Rightarrow> string \<Rightarrow> service \<Rightarrow> response \<times> service" where
  "download_file env req name s = serve_file True env req name s"

section \<open>Notions used in the statements\<close>

text \<open>An upload is accepted when the handler answers with its success page or success JSON.\<close>

definition upload_accepted :: "response \<Rightarrow> bool" where
  "upload_accepted r =
     (case snd r of Html_success fd \<Rightarrow> True | Json_success fd \<Rightarrow> True | _ \<Rightarrow> False)"

text \<open>
  No row of \<open>files\<close> holds the storage path or one of the \<open>UNIQUE\<close> URLs that the handler is
  about to generate for this request.
\<close>

definition generated_name_free :: "environment \<Rightarrow> request \<Rightarrow> string \<Rightarrow> service \<Rightarrow> bool" where
  "generated_name_free env req name s =
     (let unique_filename =
            generate_unique_filename (time_time env) (random_str env) (secure_filename env name);
          base_url = rstrip (CHR ''/'') (host_url req)
      in \<forall>r \<in> set (files (session (db s))).
           storage_path (columns r) \<noteq> upload_path unique_filename \<and>
           public_url (columns r) \<noteq> base_url @ ''file/'' @ unique_filename \<and>
           raw_url (columns r) \<noteq> base_url @ ''raw/'' @ unique_filename)"

text \<open>
  Every row of \<open>files\<close>, committed or pending, has the storage path that the upload
  handlers give it: the upload folder joined with the row's \<open>filename\<close>. The empty
  database satisfies this and every handler keeps it (\<open>handlers_keep_paths\<close> below).
\<close>

definition paths_follow_names :: "database \<Rightarrow> bool" where
  "paths_follow_names d \<longleftrightarrow>
     (\<forall>r \<in> set (files (session d)) \<union> set (files (durable d)).
        storage_path (columns r) = upload_path (filename (columns r)))"





subsection \<open>Concrete inputs for the worked examples\<close>

text \<open>
  In the examples the clock stands at 1700000000, the random token is \<open>aB3dE6gH\<close>,
  \<open>secure_filename\<close> leaves the (already safe) names as they are, every database call
  succeeds unless said otherwise, and \<open>example_digest\<close> stands in for SHA-256.
\<close>

definition example_digest :: "byte list \<Rightarrow> string" where
  "example_digest bs = map (\<lambda>b. char_of (unat b)) (rev bs)"

definition example_env :: environment where
  "example_env =
     \<lparr>secure_filename = (\<lambda>name. name), sha256 = example_digest,
      time_time = 1700000000, current_timestamp = 1700000000, random_str = ''aB3dE6gH'',
      save = Saved, add_file_sql = (Done, Done, Done), select_ok = True,
      record_download_sql = (Done, Done, Done)\<rparr>"

definition example_request :: "string \<Rightarrow> byte list \<Rightarrow> request" where
  "example_request name content =
     \<lparr>http_method = POST, file_part = Some (name, content), other_bytes = 300,
      form_version = Some ''2.0.0'', form_release_notes = None,
      host_url = ''http://localhost:10000/'', remote_addr = Some ''127.0.0.1'',
      header_user_agent = None\<rparr>"

definition empty_service :: service where
  "empty_service = \<lparr>db = empty_database, storage = Map.empty\<rparr>"

text \<open>
  The first example upload: \<open>config.json\<close>, 17 bytes, version \<open>2.0.0\<close>, into the empty
  service. \<open>uploaded_service\<close> is the state it leaves (\<open>example_upload\<close> below).
\<close>

definition example_content :: "byte list" where
  "example_content =
     [123, 34, 97, 34, 58, 49, 125, 32, 32, 32, 32, 32, 32, 32, 32, 32, 10]"

definition example_file_data :: file_data where
  "example_file_data =
     \<lparr>filename = ''1700000000_aB3dE6gH.json'',
      original_filename = ''config.json'',
      file_type = ''json'',
      file_size = 17,
      version = ''2.0.0'',
      storage_path = ''uploads/1700000000_aB3dE6gH.json'',
      public_url = ''http://localhost:10000file/1700000000_aB3dE6gH.json'',
      raw_url = ''http://localhost:10000raw/1700000000_aB3dE6gH.json'',
      download_url = ''http://localhost:10000download/1700000000_aB3dE6gH.json'',
      release_notes = [],
      checksum = example_digest example_content,
      uploader_id = 6493515910,
      uploader_name = ''Admin''\<rparr>"

definition example_files_row :: files_row where
  "example_files_row =
     \<lparr>files_id = 1, columns = example_file_data, created_at = 1700000000,
      expires_at = 1731536000, is_active = True, download_count = 0, last_download = None\<rparr>"

definition example_version_row :: version_row where
  "example_version_row =
     \<lparr>version_id = 1, version_filename = ''config.json'', version_label = ''2.0.0'',
      version_storage_path = ''uploads/1700000000_aB3dE6gH.json'',
      version_raw_url = ''http://localhost:10000raw/1700000000_aB3dE6gH.json'',
      version_created_at = 1700000000\<rparr>"

definition example_tables :: tables where
  "example_tables =
     \<lparr>files = [example_files_row], file_versions = [example_version_row], access_logs = [],
      files_seq = 1, file_versions_seq = 1, access_logs_seq = 0\<rparr>"

definition uploaded_service :: service where
  "uploaded_service =
     \<lparr>db = \<lparr>durable = example_tables, session = example_tables\<rparr>,
      storage = [''uploads/1700000000_aB3dE6gH.json'' \<mapsto> example_content]\<rparr>"

text \<open>
  A second upload in the same second, with another random token.
\<close>

definition second_env :: environment where
  "second_env = example_env\<lparr>random_str := ''Zk81mQpX''\<rparr>"

definition second_content :: "byte list" where
  "second_content = [97, 58, 49]"

definition second_file_data :: file_data where
  "second_file_data =
     \<lparr>filename = ''1700000000_Zk81mQpX.yaml'',
      original_filename = ''app.yaml'',
      file_type = ''yaml'',
      file_size = 3,
      version = ''2.0.0'',
      storage_path = ''uploads/1700000000_Zk81mQpX.yaml'',
      public_url = ''http://localhost:10000file/1700000000_Zk81mQpX.yaml'',
      raw_url = ''http://localhost:10000raw/1700000000_Zk81mQpX.yaml'',
      download_url = ''http://localhost:10000download/1700000000_Zk81mQpX.yaml'',
      release_notes = [],
      checksum = example_digest second_content,
      uploader_id = 6493515910,
      uploader_name = ''Admin''\<rparr>"

definition twice_uploaded_service :: service where
  "twice_uploaded_service =
     snd (upload_file second_env (example_request ''app.yaml'' second_content) uploaded_service)"

text \<open>
  The state after the first upload when its file has been removed from the folder by
  hand.
\<close>

definition dangling_service :: service where
  "dangling_service = uploaded_service\<lparr>storage := Map.empty\<rparr>"

text \<open>
  An environment in which the second \<open>INSERT\<close> of \<open>add_file\<close> raises.
\<close>

definition failing_env :: environment where
  "failing_env = example_env\<lparr>add_file_sql := (Done, Failed, Done)\<rparr>"

section \<open>Properties\<close>

subsection \<open>Evaluating the worked examples\<close>

lemma example_env_simps [simp]:
  "secure_filename example_env = (\<lambda>name. name)"
  "sha256 example_env = example_digest"
  "time_time example_env = 1700000000"
  "current_timestamp example_env = 1700000000"
  "random_str example_env = ''aB3dE6gH''"
  "save example_env = Saved"
  "add_file_sql example_env = (Done, Done, Done)"
  "select_ok example_env = True"
  "record_download_sql example_env = (Done, Done, Done)"
  by (simp_all add: example_env_def)

lemma example_request_simps [simp]:
  "http_method (example_request name content) = POST"
  "file_part (example_request name content) = Some (name, content)"
  "other_bytes (example_request name content) = 300"
  "form_version (example_request name content) = Some ''2.0.0''"
  "form_release_notes (example_request name content) = None"
  "host_url (example_request name content) = ''http://localhost:10000/''"
  "remote_addr (example_request name content) = Some ''127.0.0.1''"
  "header_user_agent (example_request name content) = None"
  by (simp_all add: example_request_def)

lemma empty_service_simps [simp]:
  "files (session (db empty_service)) = []"
  "files (durable (db empty_service)) = []"
  "storage empty_service = Map.empty"
  by (simp_all add: empty_service_def empty_database_def empty_tables_def)

subsection \<open>The extension check\<close>

lemma rsplit1_ext: "sep \<notin> set ext \<Longrightarrow> rsplit1 sep (stem @ sep # ext) ! Suc 0 = ext"
  by (simp add: rsplit1_def takeWhile_append)

lemma rsplit1_decompose:
  assumes "sep \<in> set s"
  shows "s = rsplit1 sep s ! 0 @ [sep] @ rsplit1 sep s ! 1 \<and> sep \<notin> set (rsplit1 sep s ! 1)"
proof -
  let ?r = "rev s"
  from assms have ne: "dropWhile (\<lambda>c. c \<noteq> sep) ?r \<noteq> []" by auto
  then have hd_sep: "hd (dropWhile (\<lambda>c. c \<noteq> sep) ?r) = sep"
    using hd_dropWhile [of "\<lambda>c. c \<noteq> sep" ?r] by simp
  have "?r = takeWhile (\<lambda>c. c \<noteq> sep) ?r @ dropWhile (\<lambda>c. c \<noteq> sep) ?r" by simp
  also have "dropWhile (\<lambda>c. c \<noteq> sep) ?r = sep # tl (dropWhile (\<lambda>c. c \<noteq> sep) ?r)"
    using ne hd_sep by (metis list.collapse)
  finally have "rev ?r =
      rev (takeWhile (\<lambda>c. c \<noteq> sep) ?r @ sep # tl (dropWhile (\<lambda>c. c \<noteq> sep) ?r))"
    by simp
  then have "s = rev (tl (dropWhile (\<lambda>c. c \<noteq> sep) ?r)) @ [sep] @
      rev (takeWhile (\<lambda>c. c \<noteq> sep) ?r)"
    by simp
  moreover have "sep \<notin> set (rev (takeWhile (\<lambda>c. c \<noteq> sep) ?r))"
    by (auto dest: set_takeWhileD)
  ultimately show ?thesis using assms by (simp add: rsplit1_def)
qed

lemma of_char_lower_char:
  "(of_char (lower_char c) :: nat) =
     (if (65 \<le> (of_char c :: nat) \<and> (of_char c :: nat) \<le> 90) \<or>
         (192 \<le> (of_char c :: nat) \<and> (of_char c :: nat) \<le> 222 \<and> (of_char c :: nat) \<noteq> 215)
      then of_char c + 32 else of_char c)"
  by (simp add: lower_char_def Let_def)

lemma lower_char_dot: "lower_char c = CHR ''.'' \<longleftrightarrow> c = CHR ''.''"
proof -
  have "lower_char c = CHR ''.'' \<longleftrightarrow> (of_char (lower_char c) :: nat) = of_char (CHR ''.'')"
    by (simp only: of_char_eq_iff)
  also have "\<dots> \<longleftrightarrow> (of_char c :: nat) = of_char (CHR ''.'')"
    by (simp add: of_char_lower_char)
  also have "\<dots> \<longleftrightarrow> c = CHR ''.''"
    by (simp only: of_char_eq_iff)
  finally show ?thesis .
qed

lemma allowed_file_iff:
  "allowed_file name \<longleftrightarrow>
     (\<exists>stem ext. name = stem @ ''.'' @ ext \<and> CHR ''.'' \<notin> set ext \<and>
        lower ext \<in> ALLOWED_EXTENSIONS)"
proof
  assume a: "allowed_file name"
  then have dot: "CHR ''.'' \<in> set name" by (simp add: allowed_file_def)
  from rsplit1_decompose [OF dot] a
  show "\<exists>stem ext. name = stem @ ''.'' @ ext \<and> CHR ''.'' \<notin> set ext \<and>
      lower ext \<in> ALLOWED_EXTENSIONS"
    unfolding allowed_file_def
    by (intro exI [of _ "rsplit1 (CHR ''.'') name ! 0"] exI [of _ "rsplit1 (CHR ''.'') name ! 1"])
      simp
next
  assume "\<exists>stem ext. name = stem @ ''.'' @ ext \<and> CHR ''.'' \<notin> set ext \<and>
      lower ext \<in> ALLOWED_EXTENSIONS"
  then obtain stem ext where "name = stem @ ''.'' @ ext" "CHR ''.'' \<notin> set ext"
      "lower ext \<in> ALLOWED_EXTENSIONS"
    by blast
  then show "allowed_file name"
    by (simp add: allowed_file_def rsplit1_ext)
qed

lemma lower_no_dot:
  assumes "CHR ''.'' \<notin> set (lower ext)"
  shows "CHR ''.'' \<notin> set ext"
proof
  assume "CHR ''.'' \<in> set ext"
  then have "lower_char (CHR ''.'') \<in> set (lower ext)" by (simp add: lower_def)
  moreover have "lower_char (CHR ''.'') = CHR ''.''" by (simp add: lower_char_dot)
  ultimately show False using assms by simp
qed

lemma allowed_no_dot: "e \<in> ALLOWED_EXTENSIONS \<Longrightarrow> CHR ''.'' \<notin> set e"
  by (auto simp: ALLOWED_EXTENSIONS_def)

lemma allowed_any_casing:
  "lower ext \<in> ALLOWED_EXTENSIONS \<Longrightarrow> allowed_file (stem @ ''.'' @ ext)"
  using allowed_file_iff allowed_no_dot lower_no_dot by blast

lemma upload_file_rejects:
  "file_part req = Some (name, content) \<Longrightarrow> \<not> allowed_file name \<Longrightarrow>
   snd (upload_file env req s) = s \<and> \<not> upload_accepted (fst (upload_file env req s))"
  by (simp add: upload_file_def upload_accepted_def)

lemma api_upload_rejects:
  "file_part req = Some (name, content) \<Longrightarrow> \<not> allowed_file name \<Longrightarrow>
   snd (api_upload env req s) = s \<and> \<not> upload_accepted (fst (api_upload env req s))"
  by (simp add: api_upload_def upload_accepted_def)

subsection \<open>The upload block when nothing fails\<close>

lemma prepare_file_data_simps:
  "filename (prepare_file_data env up req name n dg) =
     generate_unique_filename (time_time env) (random_str env) (secure_filename env name)"
  "original_filename (prepare_file_data env up req name n dg) = secure_filename env name"
  "storage_path (prepare_file_data env up req name n dg) =
     upload_path (generate_unique_filename (time_time env) (random_str env)
       (secure_filename env name))"
  "public_url (prepare_file_data env up req name n dg) =
     rstrip (CHR ''/'') (host_url req) @ ''file/'' @
       generate_unique_filename (time_time env) (random_str env) (secure_filename env name)"
  "raw_url (prepare_file_data env up req name n dg) =
     rstrip (CHR ''/'') (host_url req) @ ''raw/'' @
       generate_unique_filename (time_time env) (random_str env) (secure_filename env name)"
  "file_size (prepare_file_data env up req name n dg) = n"
  "checksum (prepare_file_data env up req name n dg) = dg"
  "uploader_name (prepare_file_data env up req name n dg) = up"
  by (simp_all add: prepare_file_data_def Let_def)

lemma add_file_all_done:
  assumes "insert_files now fd (session d) \<noteq> None"
  shows "fst (add_file (Done, Done, Done) now fd d)"
  using assms
  by (auto simp: add_file_def execute_def commit_def insert_file_versions_def Let_def
      split: option.splits)

lemma insert_files_free:
  assumes "generated_name_free env req name s"
  shows "insert_files now (prepare_file_data env up req name n dg) (session (db s)) \<noteq> None"
  using assms
  by (simp add: generated_name_free_def insert_files_def prepare_file_data_simps Let_def)

lemma save_and_register_accepts:
  assumes "save env = Saved" "add_file_sql env = (Done, Done, Done)"
    "generated_name_free env req name s"
  shows "\<exists>fd s'. save_and_register env uploader req name content s = (Registered fd, s')"
proof -
  let ?dg = "hexdigest (sha256 env) (foldl hash_update hash_new (read_blocks content))"
  let ?fd = "prepare_file_data env uploader req name (length content) ?dg"
  have "fst (add_file (Done, Done, Done) (current_timestamp env) ?fd (db s))"
    by (rule add_file_all_done) (rule insert_files_free [OF assms(3)])
  then obtain d' where
    "add_file (Done, Done, Done) (current_timestamp env) ?fd (db s) = (True, d')"
    by (cases "add_file (Done, Done, Done) (current_timestamp env) ?fd (db s)") auto
  then show ?thesis
    using assms(1,2)
    by (simp add: save_and_register_def file_save_def calculate_checksum_def Let_def)
qed

lemma uploads_accept:
  assumes "http_method req = POST" "file_part req = Some (name, content)" "allowed_file name"
    "content_length req \<le> MAX_CONTENT_LENGTH" "save env = Saved"
    "add_file_sql env = (Done, Done, Done)" "generated_name_free env req name s"
  shows "upload_accepted (fst (upload_file env req s)) \<and>
         upload_accepted (fst (api_upload env req s))"
proof -
  from assms(3) have ne: "name \<noteq> []" by (auto simp: allowed_file_def)
  obtain fd1 s1 where 1: "save_and_register env ''Admin'' req name content s = (Registered fd1, s1)"
    using save_and_register_accepts [OF assms(5,6,7)] by blast
  obtain fd2 s2 where 2:
    "save_and_register env ''API User'' req name content s = (Registered fd2, s2)"
    using save_and_register_accepts [OF assms(5,6,7)] by blast
  show ?thesis
    using assms(1-4) ne 1 2
    by (simp add: upload_file_def api_upload_def upload_accepted_def)
qed

text \<open>
  C2. \<open>allowed_file\<close> holds exactly for the names whose part after the last dot, lowered, is
  one of the ten allowed extensions. An upload whose name fails the check is turned away
  by both handlers with the storage folder and the database as they were. A name whose
  extension is an allowed one in any letter-casing passes the check, and the upload is
  accepted when the request is within the size limit, the write and the database calls do
  not fail, and the generated name is free.
\<close>

theorem extension_allow_list:
  "(allowed_file name \<longleftrightarrow>
      (\<exists>stem ext. name = stem @ ''.'' @ ext \<and> CHR ''.'' \<notin> set ext \<and>
         lower ext \<in> {''txt'', ''json'', ''conf'', ''config'', ''yaml'', ''yml'', ''xml'', ''ini'',
                       ''cfg'', ''properties''})) \<and>
   (file_part req_r = Some (name_r, content_r) \<and> \<not> allowed_file name_r \<longrightarrow>
      snd (upload_file env_r req_r s_r) = s_r \<and>
      \<not> upload_accepted (fst (upload_file env_r req_r s_r)) \<and>
      snd (api_upload env_r req_r s_r) = s_r \<and>
      \<not> upload_accepted (fst (api_upload env_r req_r s_r))) \<and>
   (lower ext_a \<in> ALLOWED_EXTENSIONS \<longrightarrow> allowed_file (stem_a @ ''.'' @ ext_a)) \<and>
   (http_method req_a = POST \<and> file_part req_a = Some (name_a, content_a) \<and>
    allowed_file name_a \<and> content_length req_a \<le> MAX_CONTENT_LENGTH \<and> save env_a = Saved \<and>
    add_file_sql env_a = (Done, Done, Done) \<and> generated_name_free env_a req_a name_a s_a \<longrightarrow>
      upload_accepted (fst (upload_file env_a req_a s_a)) \<and>
      upload_accepted (fst (api_upload env_a req_a s_a)))"
proof (intro conjI impI)
  show "allowed_file name \<longleftrightarrow>
      (\<exists>stem ext. name = stem @ ''.'' @ ext \<and> CHR ''.'' \<notin> set ext \<and>
         lower ext \<in> {''txt'', ''json'', ''conf'', ''config'', ''yaml'', ''yml'', ''xml'', ''ini'',
                       ''cfg'', ''properties''})"
    using allowed_file_iff [of name] by (simp only: ALLOWED_EXTENSIONS_def)
qed (use upload_file_rejects api_upload_rejects allowed_any_casing uploads_accept in \<open>blast+\<close>)

theorem extension_allow_list_witness:
  "\<not> allowed_file ''setup.exe'' \<and>
   lower ''JSON'' \<in> ALLOWED_EXTENSIONS \<and>
   allowed_file ''Config.Json'' \<and>
   content_length (example_request ''Config.Json'' [1, 2, 3]) \<le> MAX_CONTENT_LENGTH \<and>
   generated_name_free example_env (example_request ''Config.Json'' [1, 2, 3]) ''Config.Json''
     empty_service \<and>
   snd (upload_file example_env (example_request ''setup.exe'' [1, 2, 3]) empty_service)
     = empty_service \<and>
   \<not> upload_accepted
       (fst (upload_file example_env (example_request ''setup.exe'' [1, 2, 3]) empty_service)) \<and>
   allowed_file (''config'' @ ''.'' @ ''JSON'') \<and>
   upload_accepted (fst (upload_file example_env (example_request ''Config.Json'' [1, 2, 3])
     empty_service)) \<and>
   upload_accepted (fst (api_upload example_env (example_request ''Config.Json'' [1, 2, 3])
     empty_service))"
proof -
  have no: "\<not> allowed_file ''setup.exe''"
    by (simp add: allowed_file_def rsplit1_def lower_def lower_char_def ALLOWED_EXTENSIONS_def
        char_of_eq_iff)
  have low: "lower ''JSON'' \<in> ALLOWED_EXTENSIONS"
    by (simp add: lower_def lower_char_def ALLOWED_EXTENSIONS_def char_of_eq_iff)
  have yes: "allowed_file ''Config.Json''"
    by (simp add: allowed_file_def rsplit1_def lower_def lower_char_def ALLOWED_EXTENSIONS_def
        char_of_eq_iff)
  have len: "content_length (example_request ''Config.Json'' [1, 2, 3]) \<le> MAX_CONTENT_LENGTH"
    by (simp add: content_length_def MAX_CONTENT_LENGTH_def)
  have free: "generated_name_free example_env (example_request ''Config.Json'' [1, 2, 3])
      ''Config.Json'' empty_service"
    by (simp add: generated_name_free_def)
  show ?thesis
    using no low yes len free
      extension_allow_list [of "''a.b.Yml''" "example_request ''setup.exe'' [1, 2, 3]"
        "''setup.exe''" "[1, 2, 3]" example_env empty_service "''JSON''" "''config''"
        "example_request ''Config.Json'' [1, 2, 3]" "''Config.Json''" "[1, 2, 3]" example_env
        empty_service]
    by simp
qed

text \<open>
  C10. A name without a dot fails \<open>allowed_file\<close>, whatever else it contains, and an upload
  under such a name is turned away by both handlers with the storage folder and the
  database as they were.
\<close>

theorem extensionless_upload_rejected:
  assumes "CHR ''.'' \<notin> set name"
  shows "\<not> allowed_file name \<and>
         (file_part req = Some (name, content) \<longrightarrow>
            snd (upload_file env req s) = s \<and>
            \<not> upload_accepted (fst (upload_file env req s)) \<and>
            snd (api_upload env req s) = s \<and>
            \<not> upload_accepted (fst (api_upload env req s)))"
proof -
  from assms have no: "\<not> allowed_file name" by (simp add: allowed_file_def)
  then show ?thesis using upload_file_rejects api_upload_rejects by blast
qed

theorem extensionless_upload_rejected_witness:
  "CHR ''.'' \<notin> set ''README'' \<and> \<not> allowed_file ''README'' \<and>
   file_part (example_request ''README'' [1, 2, 3]) = Some (''README'', [1, 2, 3]) \<and>
   upload_file example_env (example_request ''README'' [1, 2, 3]) empty_service
     = ((200, Html_error ''Invalid File Type''), empty_service) \<and>
   api_upload example_env (example_request ''README'' [1, 2, 3]) empty_service
     = ((400, Json_error ''File type not allowed''), empty_service)"
  using extensionless_upload_rejected [of "''README''" "example_request ''README'' [1, 2, 3]"
      "[1, 2, 3]" example_env empty_service]
  by (simp add: upload_file_def api_upload_def content_length_def MAX_CONTENT_LENGTH_def)

subsection \<open>The checksum\<close>

lemma concat_read_blocks: "concat (read_blocks xs) = xs"
proof (induction xs rule: read_blocks.induct)
  case (1 rest)
  show ?case
  proof (cases "take 4096 rest = []")
    case True
    then have "rest = []" by (cases rest) auto
    then show ?thesis by (simp add: read_blocks.simps)
  next
    case False
    with 1 have "concat (read_blocks (drop 4096 rest)) = drop 4096 rest" by simp
    with False show ?thesis by (subst read_blocks.simps) (simp add: Let_def)
  qed
qed

lemma read_blocks_sizes:
  "\<forall>b \<in> set (read_blocks xs). b \<noteq> [] \<and> length b \<le> 4096"
proof (induction xs rule: read_blocks.induct)
  case (1 rest)
  show ?case
  proof (cases "take 4096 rest = []")
    case True
    then show ?thesis by (subst read_blocks.simps) (simp add: Let_def)
  next
    case False
    with 1 show ?thesis by (subst read_blocks.simps) (simp add: Let_def)
  qed
qed

lemma foldl_hash_update: "foldl hash_update h blocks = h @ concat blocks"
  by (induction blocks arbitrary: h) (simp_all add: hash_update_def)

lemma calculate_checksum_whole:
  "d path = Some content \<Longrightarrow> calculate_checksum sha d path = Some (sha content)"
  by (simp add: calculate_checksum_def hexdigest_def foldl_hash_update hash_new_def
      concat_read_blocks)

subsection \<open>What a successful registration leaves\<close>









subsection \<open>The example upload, evaluated\<close>

lemma example_names:
  "generate_unique_filename 1700000000 ''aB3dE6gH'' ''config.json'' = ''1700000000_aB3dE6gH.json''"
  "upload_path ''1700000000_aB3dE6gH.json'' = ''uploads/1700000000_aB3dE6gH.json''"
  "rstrip (CHR ''/'') ''http://localhost:10000/'' = ''http://localhost:10000''"
  "allowed_file ''config.json''"
  by (simp_all add: generate_unique_filename_def rsplit1_def str_nat.simps digit_char_def
      upload_path_def UPLOAD_FOLDER_def rstrip_def allowed_file_def lower_def lower_char_def
      ALLOWED_EXTENSIONS_def)

lemma example_content_length: "length example_content = 17"
  by (simp add: example_content_def)




lemma uploaded_files: "files (session (db uploaded_service)) = [example_files_row]"
  by (simp add: uploaded_service_def example_tables_def)



subsection \<open>The handlers keep the storage paths in step with the names\<close>

lemma add_file_rows:
  assumes "r \<in> set (files (session (snd (add_file os now fd d)))) \<union>
               set (files (durable (snd (add_file os now fd d))))"
  shows "r \<in> set (files (session d)) \<union> set (files (durable d)) \<or> columns r = fd"
proof -
  obtain o1 o2 o3 where os: "os = (o1, o2, o3)" by (cases os) auto
  show ?thesis
    using assms unfolding os add_file_def
    by (cases o1; cases o2; cases o3; cases "insert_files now fd (session d)")
      (auto simp: execute_def commit_def insert_files_def insert_file_versions_def Let_def
        split: if_splits)
qed

lemma record_download_rows:
  assumes "r \<in> set (files (session (record_download os now i ip ua d))) \<union>
               set (files (durable (record_download os now i ip ua d)))"
  shows "\<exists>r0 \<in> set (files (session d)) \<union> set (files (durable d)). columns r = columns r0"
proof -
  obtain o1 o2 o3 where os: "os = (o1, o2, o3)" by (cases os) auto
  show ?thesis
    using assms unfolding os record_download_def
    by (cases o1; cases o2; cases o3)
      (auto simp: execute_def commit_def update_download_def insert_access_logs_def Let_def
        split: if_splits)
qed

lemma save_and_register_db:
  "db (snd (save_and_register env up req name content s)) = db s \<or>
   db (snd (save_and_register env up req name content s))
     = snd (add_file (add_file_sql env) (current_timestamp env)
              (prepare_file_data env up req name (length content) (sha256 env content)) (db s))"
proof (cases "save env")
  case Saved
  obtain b d' where res: "add_file (add_file_sql env) (current_timestamp env)
      (prepare_file_data env up req name (length content) (sha256 env content)) (db s) = (b, d')"
    by (cases "add_file (add_file_sql env) (current_timestamp env)
      (prepare_file_data env up req name (length content) (sha256 env content)) (db s)")
  show ?thesis
    using Saved res
    by (cases b) (simp_all add: save_and_register_def file_save_def calculate_checksum_whole Let_def)
next
  case OpenFailed
  then show ?thesis by (simp add: save_and_register_def file_save_def Let_def)
next
  case (WriteFailed k)
  then show ?thesis by (simp add: save_and_register_def file_save_def Let_def)
qed

lemma save_and_register_keeps_paths:
  assumes "paths_follow_names (db s)"
  shows "paths_follow_names (db (snd (save_and_register env up req name content s)))"
proof -
  from save_and_register_db [of env up req name content s] show ?thesis
  proof
    assume "db (snd (save_and_register env up req name content s)) = db s"
    with assms show ?thesis by simp
  next
    assume eq: "db (snd (save_and_register env up req name content s))
      = snd (add_file (add_file_sql env) (current_timestamp env)
               (prepare_file_data env up req name (length content) (sha256 env content)) (db s))"
    show ?thesis
      unfolding eq paths_follow_names_def
    proof
      fix r
      assume "r \<in> set (files (session (snd (add_file (add_file_sql env) (current_timestamp env)
               (prepare_file_data env up req name (length content) (sha256 env content))
               (db s))))) \<union>
           set (files (durable (snd (add_file (add_file_sql env) (current_timestamp env)
               (prepare_file_data env up req name (length content) (sha256 env content))
               (db s)))))"
      from add_file_rows [OF this] assms
      show "storage_path (columns r) = upload_path (filename (columns r))"
        by (auto simp: paths_follow_names_def prepare_file_data_simps)
    qed
  qed
qed

lemma upload_file_state:
  "snd (upload_file env req s) = s \<or>
   (\<exists>n c. snd (upload_file env req s) = snd (save_and_register env ''Admin'' req n c s))"
proof (cases "file_part req")
  case None
  then show ?thesis by (simp add: upload_file_def)
next
  case (Some part)
  obtain n c where part: "part = (n, c)" by (cases part)
  obtain res s' where res: "save_and_register env ''Admin'' req n c s = (res, s')"
    by (cases "save_and_register env ''Admin'' req n c s")
  have "snd (upload_file env req s) = s \<or> snd (upload_file env req s) = s'"
    using Some part res by (cases res) (simp_all add: upload_file_def)
  with res show ?thesis by (metis snd_conv)
qed

lemma api_upload_state:
  "snd (api_upload env req s) = s \<or>
   (\<exists>n c. snd (api_upload env req s) = snd (save_and_register env ''API User'' req n c s))"
proof (cases "file_part req")
  case None
  then show ?thesis by (simp add: api_upload_def)
next
  case (Some part)
  obtain n c where part: "part = (n, c)" by (cases part)
  obtain res s' where res: "save_and_register env ''API User'' req n c s = (res, s')"
    by (cases "save_and_register env ''API User'' req n c s")
  have "snd (api_upload env req s) = s \<or> snd (api_upload env req s) = s'"
    using Some part res by (cases res) (simp_all add: api_upload_def)
  with res show ?thesis by (metis snd_conv)
qed

lemma handlers_keep_paths:
  assumes "paths_follow_names (db s)"
  shows "paths_follow_names (db (snd (upload_file env req s)))"
    and "paths_follow_names (db (snd (api_upload env req s)))"
    and "paths_follow_names (db (snd (raw_file env req name s)))"
    and "paths_follow_names (db (snd (download_file env req name s)))"
proof -
  have reg: "paths_follow_names (db (snd (save_and_register env up req n c s)))" for up n c
    by (rule save_and_register_keeps_paths [OF assms])
  show "paths_follow_names (db (snd (upload_file env req s)))"
    using assms reg [of "''Admin''"] upload_file_state [of env req s] by auto
  show "paths_follow_names (db (snd (api_upload env req s)))"
    using assms reg [of "''API User''"] api_upload_state [of env req s] by auto
  have serve: "paths_follow_names (db (snd (serve_file att env req name s)))" for att
  proof (cases "db (snd (serve_file att env req name s)) = db s")
    case True
    with assms show ?thesis by simp
  next
    case False
    then obtain i where eq: "db (snd (serve_file att env req name s))
        = record_download (record_download_sql env) (current_timestamp env) i (remote_addr req)
            (header_user_agent req) (db s)"
      by (auto simp: serve_file_def split: option.splits)
    show ?thesis
      unfolding eq paths_follow_names_def
    proof
      fix r
      assume "r \<in> set (files (session (record_download (record_download_sql env)
            (current_timestamp env) i (remote_addr req) (header_user_agent req) (db s)))) \<union>
          set (files (durable (record_download (record_download_sql env)
            (current_timestamp env) i (remote_addr req) (header_user_agent req) (db s))))"
      from record_download_rows [OF this] assms
      show "storage_path (columns r) = upload_path (filename (columns r))"
        by (auto simp: paths_follow_names_def)
    qed
  qed
  from serve show "paths_follow_names (db (snd (raw_file env req name s)))"
    by (simp add: raw_file_def)
  from serve show "paths_follow_names (db (snd (download_file env req name s)))"
    by (simp add: download_file_def)
qed

subsection \<open>Upload, then fetch\<close>



subsection \<open>The size limit\<close>

text \<open>
  C3. An upload whose file is longer than 10 MiB (10485760 bytes) makes the request body
  longer than \<open>MAX_CONTENT_LENGTH\<close>; both handlers fail before anything is written: the
  page handler answers 413, the API handler answers 500 with the text of the same
  exception, and the storage folder and the database are as they were.
\<close>

theorem oversize_upload_rejected:
  assumes "file_part req = Some (name, content)" "10485760 < length content"
  shows "MAX_CONTENT_LENGTH < content_length req \<and>
         (http_method req = POST \<longrightarrow>
            upload_file env req s = ((413, Http_exception RequestEntityTooLarge), s)) \<and>
         api_upload env req s = ((500, Json_exception RequestEntityTooLarge), s)"
  using assms
  by (simp add: upload_file_def api_upload_def content_length_def MAX_CONTENT_LENGTH_def)

theorem oversize_upload_rejected_witness:
  "(10485760::nat) < length (replicate 10485761 (0::byte)) \<and>
   upload_file example_env (example_request ''big.json'' (replicate 10485761 0)) empty_service
     = ((413, Http_exception RequestEntityTooLarge), empty_service) \<and>
   api_upload example_env (example_request ''big.json'' (replicate 10485761 0)) empty_service
     = ((500, Json_exception RequestEntityTooLarge), empty_service)"
  using oversize_upload_rejected [of "example_request ''big.json'' (replicate 10485761 0)"
      "''big.json''" "replicate 10485761 0" example_env empty_service]
  by simp

subsection \<open>Requests for files that are not there\<close>

lemma serve_file_not_found:
  assumes "(\<forall>r \<in> set (files (session (db s))). filename (columns r) \<noteq> name) \<or>
           (\<exists>r. get_file_by_filename True name (db s) = Some r \<and>
                storage s (storage_path (columns r)) = None)"
  shows "fst (fst (serve_file att env req name s)) = 404 \<and> snd (serve_file att env req name s) = s"
proof (cases "select_ok env")
  case False
  then show ?thesis by (simp add: serve_file_def get_file_by_filename_def)
next
  case True
  from assms show ?thesis
  proof
    assume "\<forall>r \<in> set (files (session (db s))). filename (columns r) \<noteq> name"
    then have "find (\<lambda>r. filename (columns r) = name) (files (session (db s))) = None"
      by (simp add: find_None_iff)
    then show ?thesis by (simp add: serve_file_def get_file_by_filename_def)
  next
    assume "\<exists>r. get_file_by_filename True name (db s) = Some r \<and>
                storage s (storage_path (columns r)) = None"
    then show ?thesis using True by (auto simp: serve_file_def get_file_by_filename_def)
  qed
qed

text \<open>
  C9. When no row of \<open>files\<close> has the requested name, or the row found has no file at its
  storage path, the raw route and the download route answer 404 and leave the whole state
  as it was: no counter, no \<open>last_download\<close> and no log row changes.
\<close>

theorem not_found_records_nothing:
  assumes "(\<forall>r \<in> set (files (session (db s))). filename (columns r) \<noteq> name) \<or>
           (\<exists>r. get_file_by_filename True name (db s) = Some r \<and>
                storage s (storage_path (columns r)) = None)"
  shows "fst (fst (raw_file env req name s)) = 404 \<and> snd (raw_file env req name s) = s \<and>
         fst (fst (download_file env req name s)) = 404 \<and> snd (download_file env req name s) = s"
  using serve_file_not_found [OF assms] by (simp add: raw_file_def download_file_def)

theorem not_found_records_nothing_witness:
  "files (session (db empty_service)) = [] \<and>
   raw_file example_env (example_request [] []) ''nothing.txt'' empty_service
     = ((404, Text ''File not found''), empty_service) \<and>
   get_file_by_filename True ''1700000000_aB3dE6gH.json'' (db dangling_service)
     = Some example_files_row \<and>
   storage dangling_service (storage_path (columns example_files_row)) = None \<and>
   fst (fst (raw_file example_env (example_request [] []) ''1700000000_aB3dE6gH.json''
     dangling_service)) = 404 \<and>
   snd (raw_file example_env (example_request [] []) ''1700000000_aB3dE6gH.json''
     dangling_service) = dangling_service \<and>
   fst (fst (download_file example_env (example_request [] []) ''1700000000_aB3dE6gH.json''
     dangling_service)) = 404 \<and>
   snd (download_file example_env (example_request [] []) ''1700000000_aB3dE6gH.json''
     dangling_service) = dangling_service"
proof -
  have row: "get_file_by_filename True ''1700000000_aB3dE6gH.json'' (db dangling_service)
      = Some example_files_row"
    by (simp add: get_file_by_filename_def dangling_service_def uploaded_files
        example_files_row_def example_file_data_def)
  have gone: "storage dangling_service (storage_path (columns example_files_row)) = None"
    by (simp add: dangling_service_def)
  have none: "raw_file example_env (example_request [] []) ''nothing.txt'' empty_service
      = ((404, Text ''File not found''), empty_service)"
    by (simp add: raw_file_def serve_file_def get_file_by_filename_def)
  show ?thesis
    using row gone none
      not_found_records_nothing [of dangling_service "''1700000000_aB3dE6gH.json''" example_env
        "example_request [] []"]
    by simp
qed

subsection \<open>Recording downloads\<close>








subsection \<open>Listing\<close>




lemma second_names:
  "generate_unique_filename 1700000000 ''Zk81mQpX'' ''app.yaml'' = ''1700000000_Zk81mQpX.yaml''"
  "upload_path ''1700000000_Zk81mQpX.yaml'' = ''uploads/1700000000_Zk81mQpX.yaml''"
  "allowed_file ''app.yaml''"
  by (simp_all add: generate_unique_filename_def rsplit1_def str_nat.simps digit_char_def
      upload_path_def UPLOAD_FOLDER_def allowed_file_def lower_def lower_char_def
      ALLOWED_EXTENSIONS_def)

lemma second_env_simps [simp]:
  "secure_filename second_env = (\<lambda>name. name)"
  "sha256 second_env = example_digest"
  "time_time second_env = 1700000000"
  "current_timestamp second_env = 1700000000"
  "random_str second_env = ''Zk81mQpX''"
  "save second_env = Saved"
  "add_file_sql second_env = (Done, Done, Done)"
  by (simp_all add: second_env_def)

lemma second_content_length: "length second_content = 3"
  by (simp add: second_content_def)

lemma second_prepare:
  "prepare_file_data second_env ''Admin'' (example_request ''app.yaml'' second_content)
     ''app.yaml'' 3 (example_digest second_content) = second_file_data"
  by (simp add: prepare_file_data_def Let_def second_names example_names second_file_data_def
      ADMIN_ID_def rsplit1_def lower_def lower_char_def)

lemma twice_uploaded_files:
  "files (session (db twice_uploaded_service)) =
     [example_files_row,
      \<lparr>files_id = 2, columns = second_file_data, created_at = 1700000000,
        expires_at = 1731536000, is_active = True, download_count = 0, last_download = None\<rparr>]"
  by (simp add: twice_uploaded_service_def upload_file_def content_length_def
      MAX_CONTENT_LENGTH_def second_names save_and_register_def file_save_def
      calculate_checksum_whole Let_def second_prepare second_content_length uploaded_service_def
      add_file_def execute_def commit_def insert_files_def insert_file_versions_def
      next_rowid_def example_tables_def example_files_row_def example_file_data_def
      second_file_data_def)

lemma twice_uploaded_listing:
  "map summary_id (get_all_files True (db twice_uploaded_service)) = [1, 2] \<and>
   map summary_created_at (get_all_files True (db twice_uploaded_service))
     = [1700000000, 1700000000]"
  by (simp add: get_all_files_def order_by_created_at_desc_def twice_uploaded_files
      file_summary_of_def example_files_row_def)



subsection \<open>Searching\<close>








subsection \<open>A registration that fails\<close>

lemma add_file_False_durable:
  "add_file os now fd d = (False, d') \<Longrightarrow> durable d' = durable d"
proof -
  obtain o1 o2 o3 where os: "os = (o1, o2, o3)" by (cases os) auto
  show "add_file os now fd d = (False, d') \<Longrightarrow> durable d' = durable d"
    unfolding os add_file_def
    by (cases o1; cases o2; cases o3; cases "insert_files now fd (session d)")
      (auto simp: execute_def commit_def insert_file_versions_def Let_def)
qed

lemma register_failure_deletes_blob:
  assumes "save_and_register env up req name content s = (Register_failed, s')"
  shows "storage s' (upload_path (generate_unique_filename (time_time env) (random_str env)
           (secure_filename env name))) = None"
    and "durable (db s') = durable (db s)"
  using assms
  by (auto simp: save_and_register_def file_save_def calculate_checksum_whole Let_def
      split: save_outcome.splits prod.splits bool.splits dest: add_file_False_durable)

lemma failing_env_simps [simp]:
  "secure_filename failing_env = (\<lambda>name. name)"
  "sha256 failing_env = example_digest"
  "time_time failing_env = 1700000000"
  "current_timestamp failing_env = 1700000000"
  "random_str failing_env = ''aB3dE6gH''"
  "save failing_env = Saved"
  "add_file_sql failing_env = (Done, Failed, Done)"
  by (simp_all add: failing_env_def)

lemma add_file_second_insert_fails:
  "add_file (Done, Failed, Done) 1700000000 example_file_data empty_database
     = (False, \<lparr>durable = empty_tables,
                 session = empty_tables\<lparr>files := [example_files_row], files_seq := 1\<rparr>\<rparr>)"
  by (simp add: add_file_def execute_def insert_files_def next_rowid_def empty_database_def
      empty_tables_def Let_def example_files_row_def)

lemma add_file_commit_fails:
  "add_file (Done, Done, Failed) 1700000000 example_file_data empty_database
     = (False, \<lparr>durable = empty_tables, session = example_tables\<rparr>)"
  by (simp add: add_file_def execute_def commit_def insert_files_def insert_file_versions_def
      next_rowid_def empty_database_def empty_tables_def example_tables_def Let_def
      example_files_row_def example_version_row_def example_file_data_def)

lemma failed_upload_eval:
  "upload_file failing_env (example_request ''config.json'' example_content) empty_service
     = ((200, Html_error ''Upload Failed''),
        \<lparr>db = \<lparr>durable = empty_tables,
                session = empty_tables\<lparr>files := [example_files_row], files_seq := 1\<rparr>\<rparr>,
         storage = Map.empty\<rparr>)"
  by (simp add: upload_file_def content_length_def MAX_CONTENT_LENGTH_def example_names
      save_and_register_def file_save_def calculate_checksum_whole Let_def
      example_content_length empty_service_def
      prepare_file_data_def ADMIN_ID_def rsplit1_def lower_def lower_char_def
      example_file_data_def [symmetric] add_file_second_insert_fails)

text \<open>
  C4, at a failing input. \<open>add_file\<close> on the empty database, with the second \<open>INSERT\<close>
  raising: it returns \<open>False\<close> and rolls nothing back, so the connection still holds the
  new \<open>files\<close> row without a version row, and the next commit on the connection (here that
  of \<open>record_view\<close>) makes exactly that durable. With the \<open>commit\<close> raising instead, both
  rows of the registration reported as failed become durable at the next commit.
\<close>

theorem add_file_fault_keeps_rows:
  "fst (add_file (Done, Failed, Done) 1700000000 example_file_data empty_database) = False \<and>
   files (session (snd (add_file (Done, Failed, Done) 1700000000 example_file_data
     empty_database))) = [example_files_row] \<and>
   file_versions (session (snd (add_file (Done, Failed, Done) 1700000000 example_file_data
     empty_database))) = [] \<and>
   files (durable (record_view (Done, Done) 1700000050 1 None None
     (snd (add_file (Done, Failed, Done) 1700000000 example_file_data empty_database))))
     = [example_files_row] \<and>
   file_versions (durable (record_view (Done, Done) 1700000050 1 None None
     (snd (add_file (Done, Failed, Done) 1700000000 example_file_data empty_database)))) = [] \<and>
   fst (add_file (Done, Done, Failed) 1700000000 example_file_data empty_database) = False \<and>
   files (durable (record_view (Done, Done) 1700000050 1 None None
     (snd (add_file (Done, Done, Failed) 1700000000 example_file_data empty_database))))
     = [example_files_row] \<and>
   file_versions (durable (record_view (Done, Done) 1700000050 1 None None
     (snd (add_file (Done, Done, Failed) 1700000000 example_file_data empty_database))))
     = [example_version_row]"
  by (simp add: add_file_second_insert_fails add_file_commit_fails record_view_def execute_def
      commit_def insert_access_logs_def Let_def empty_tables_def example_tables_def)

text \<open>
  C8, at a failing input. The upload whose \<open>add_file\<close> fails at the second \<open>INSERT\<close>: the
  handler answers \<open>Upload Failed\<close> and has deleted the file it wrote, but the catalog row of
  the request is still found by name and listed, and fetching it answers 404.
\<close>

theorem failed_upload_keeps_catalog_row:
  "fst (upload_file failing_env (example_request ''config.json'' example_content) empty_service)
     = (200, Html_error ''Upload Failed'') \<and>
   storage (snd (upload_file failing_env (example_request ''config.json'' example_content)
     empty_service)) = Map.empty \<and>
   get_file_by_filename True ''1700000000_aB3dE6gH.json''
     (db (snd (upload_file failing_env (example_request ''config.json'' example_content)
       empty_service))) = Some example_files_row \<and>
   map summary_id (get_all_files True
     (db (snd (upload_file failing_env (example_request ''config.json'' example_content)
       empty_service)))) = [1] \<and>
   fst (raw_file example_env (example_request [] []) ''1700000000_aB3dE6gH.json''
     (snd (upload_file failing_env (example_request ''config.json'' example_content)
       empty_service))) = (404, Text ''File not found on server'')"
  by (simp add: failed_upload_eval get_file_by_filename_def get_all_files_def
      order_by_created_at_desc_def file_summary_of_def raw_file_def serve_file_def
      empty_tables_def example_files_row_def example_file_data_def)

end
